theory Spec2Isabelle
  imports Main "HOL-Library.Word" "HOL-Library.Monad_Syntax"
begin

unbundle bit_operations_syntax

section \<open>Data model\<close>

type_synonym u8 = "8 word"
type_synonym u16 = "16 word"

text \<open>\<^verbatim>\<open>size_t\<close>, taken as 64 bits wide; arithmetic on it wraps around.\<close>

type_synonym size_t = "64 word"

text \<open>
  \<^verbatim>\<open>enum class Model { Ds, Lite, Dsi, Ique, IqueLite };\<close>
  A scoped enumeration without an explicit base has the fixed underlying type \<^verbatim>\<open>int\<close>, so
  every value of that type is a value of \<^verbatim>\<open>Model\<close>; the enumerators are numbered from 0 in
  the order of their declaration. The model keeps the underlying value, so that the
  \<^verbatim>\<open>default:\<close> branch of the code is a branch of the model.
\<close>

type_synonym Model = "32 word"

definition Ds :: Model where "Ds = 0"
definition Lite :: Model where "Lite = 1"
definition Dsi :: Model where "Dsi = 2"
definition Ique :: Model where "Ique = 3"
definition IqueLite :: Model where "IqueLite = 4"

section \<open>CRC16 (\<^verbatim>\<open>firmware_dust.cpp\<close>, lines 16--27)\<close>

text \<open>
  The inner loop \<^verbatim>\<open>for (int j = 0; j < 8; ++j)\<close>, with the number of remaining rounds as
  the recursion argument. \<^verbatim>\<open>crc\<close> is promoted to \<^verbatim>\<open>int\<close> in \<^verbatim>\<open>(crc >> 1) ^ 0xA001\<close>; both
  operands are below \<open>2 ^ 16\<close>, so the assignment back to \<^verbatim>\<open>uint16_t\<close> loses nothing.
\<close>

fun crc16_bits :: "nat \<Rightarrow> u16 \<Rightarrow> u16" where
  "crc16_bits 0 crc = crc"
| "crc16_bits (Suc j) crc =
     crc16_bits j (if crc AND 1 \<noteq> 0 then drop_bit 1 crc XOR 0xA001 else drop_bit 1 crc)"

text \<open>
  The outer loop over \<^verbatim>\<open>data[0 .. len)\<close>; the bytes read are passed as a list, \<^verbatim>\<open>len\<close> being
  its length. \<^verbatim>\<open>crc ^= data[i]\<close> zero-extends the byte.
\<close>

fun crc16 :: "u16 \<Rightarrow> u8 list \<Rightarrow> u16" where
  "crc16 crc [] = crc"
| "crc16 crc (b # data) = crc16 (crc16_bits 8 (crc XOR ucast b)) data"

section \<open>Buffer accesses\<close>

text \<open>
  \<^verbatim>\<open>firmware[i] = v\<close> and \<^verbatim>\<open>user[k] = v\<close> on the \<^verbatim>\<open>std::vector\<close> are unchecked in C++; an
  index outside the vector is undefined behaviour. The model makes it the result \<open>None\<close>.
\<close>

definition store :: "nat \<Rightarrow> u8 \<Rightarrow> u8 list \<Rightarrow> u8 list option" where
  "store i v fw = (if i < length fw then Some (fw[i := v]) else None)"

text \<open>
  Reading element \<open>i\<close> of an array (\<^verbatim>\<open>values[i]\<close>, \<^verbatim>\<open>name[i]\<close>), \<open>None\<close> outside it.
\<close>

definition load :: "'a list \<Rightarrow> nat \<Rightarrow> 'a option" where
  "load xs i = (if i < length xs then Some (xs ! i) else None)"

text \<open>
  The range \<^verbatim>\<open>data[0 .. len)\<close> read by \<^verbatim>\<open>crc16\<close> through the pointer
  \<^verbatim>\<open>firmware.data() + start\<close>.
\<close>

definition read_range :: "nat \<Rightarrow> nat \<Rightarrow> u8 list \<Rightarrow> u8 list option" where
  "read_range start len fw =
     (if start + len \<le> length fw then Some (take len (drop start fw)) else None)"

text \<open>\<^verbatim>\<open>std::copy(first, last, firmware.begin() + off)\<close>: one store per element.\<close>

fun copy_bytes :: "u8 list \<Rightarrow> nat \<Rightarrow> u8 list \<Rightarrow> u8 list option" where
  "copy_bytes [] off fw = Some fw"
| "copy_bytes (b # bs) off fw = store off b fw \<bind> copy_bytes bs (Suc off)"

text \<open>A counting loop \<^verbatim>\<open>for (int i = 0; i < n; ++i) body\<close> over the indices it visits.\<close>

fun for_each :: "nat list \<Rightarrow> (nat \<Rightarrow> 's \<Rightarrow> 's option) \<Rightarrow> 's \<Rightarrow> 's option" where
  "for_each [] body s = Some s"
| "for_each (i # is) body s = body i s \<bind> for_each is body"

section \<open>The firmware builder (\<^verbatim>\<open>firmware_dust.cpp\<close>, lines 33--130)\<close>

text \<open>
  \<^verbatim>\<open>default_firmware\<close> is one C++ function; it is embedded section by section, in the order
  of the source: the length (\<open>firmware_len\<close>), the header stores (\<open>write_header\<close>, with the
  switch of lines 75--92 as \<open>write_model_byte\<close>), the body of the loop over the blocks
  (\<open>write_user_settings\<close>), and \<open>default_firmware\<close> itself, which runs them on the
  zero-filled vector.
\<close>

text \<open>Lines 34--50: the image length.\<close>

definition firmware_len :: "Model \<Rightarrow> size_t" where
  "firmware_len model =
     (if model = Dsi then 0x20000
      else if model = Ds \<or> model = Lite then 0x40000
      else if model = Ique \<or> model = IqueLite then 0x80000
      else 0x40000)"

text \<open>Lines 75--92: the switch on the model has no \<^verbatim>\<open>default:\<close>, so other values store nothing.\<close>

definition write_model_byte :: "Model \<Rightarrow> u8 list \<Rightarrow> u8 list option" where
  "write_model_byte model fw =
     (if model = Ds then store 0x1D 0xFF fw
      else if model = Lite then store 0x1D 0x20 fw
      else if model = Ique then store 0x1D 0x57 fw
      else if model = IqueLite then store 0x1D 0x43 fw
      else if model = Dsi then store 0x1D 0x63 fw
      else Some fw)"

text \<open>Lines 54--104: the header fields.\<close>

definition write_header :: "Model \<Rightarrow> size_t \<Rightarrow> u8 list \<Rightarrow> u8 list option" where
  "write_header model len firmware = do {
     firmware \<leftarrow> store 0x04 0x00 firmware;
     firmware \<leftarrow> store 0x05 0xDB firmware;
     firmware \<leftarrow> store 0x06 0x1F firmware;
     firmware \<leftarrow> store 0x07 0x0F firmware;
     firmware \<leftarrow> store 0x08 (of_char CHR ''M'') firmware;
     firmware \<leftarrow> store 0x09 (of_char CHR ''A'') firmware;
     firmware \<leftarrow> store 0x0A (of_char CHR ''C'') firmware;
     firmware \<leftarrow> store 0x0B 0x68 firmware;
     let val14 = (ucast (push_bit 12 (drop_bit 17 len)) :: u16);
     firmware \<leftarrow> store 0x14 (ucast (val14 AND 0xFF)) firmware;
     firmware \<leftarrow> store 0x15 (ucast (drop_bit 8 val14 AND 0xFF)) firmware;
     firmware \<leftarrow> copy_bytes [0x00, 0x00, 0x01, 0x01, 0x06] 0x18 firmware;
     firmware \<leftarrow> write_model_byte model firmware;
     firmware \<leftarrow> store 0x1E 0xFF firmware;
     firmware \<leftarrow> store 0x1F 0xFF firmware;
     let values = [ucast (drop_bit 3 (len - 0x200)) :: u16, 0x0B51, 0x0DB3, 0x4F5D, 0xFFFF];
     for_each [0 ..< 5] (\<lambda>i firmware. do {
       v \<leftarrow> load values i;
       firmware \<leftarrow> store (0x20 + i * 2) (ucast (v AND 0xFF)) firmware;
       store (0x21 + i * 2) (ucast (drop_bit 8 v AND 0xFF)) firmware
     }) firmware
   }"

text \<open>
  Lines 108--126: the body of the loop over the two user-settings blocks, for block \<open>u\<close>.
  The pointer \<^verbatim>\<open>user = firmware.data() + start\<close> is kept as the index it points at, so
  \<^verbatim>\<open>user[k]\<close> is the element \<open>user + k\<close> of the vector. \<^verbatim>\<open>u * 0x100\<close> is computed in
  \<^verbatim>\<open>int\<close> and converted to \<^verbatim>\<open>size_t\<close>.
\<close>

definition write_user_settings :: "size_t \<Rightarrow> nat \<Rightarrow> u8 list \<Rightarrow> u8 list option" where
  "write_user_settings len u firmware = do {
     let start = (len - 0x200 + of_nat (u * 0x100) :: size_t);
     let user = unat start;
     firmware \<leftarrow> store (user + 0x00) 5 firmware;
     firmware \<leftarrow> store (user + 0x02) (if u = 0 then 1 else 0) firmware;
     firmware \<leftarrow> store (user + 0x03) 1 firmware;
     firmware \<leftarrow> store (user + 0x04) 1 firmware;
     let name = ''Dust'';
     firmware \<leftarrow> for_each [0 ..< 4] (\<lambda>i firmware. do {
       c \<leftarrow> load name i;
       firmware \<leftarrow> store (user + (0x06 + i * 2)) (of_char c) firmware;
       store (user + (0x07 + i * 2)) 0x00 firmware
     }) firmware;
     data \<leftarrow> read_range user 0x70 firmware;
     let crc = crc16 0xFFFF data;
     firmware \<leftarrow> store (user + 0x72) (ucast (crc AND 0xFF)) firmware;
     store (user + 0x73) (ucast (drop_bit 8 crc AND 0xFF)) firmware
   }"

text \<open>
  Lines 33--130: the zero-filled vector of \<^verbatim>\<open>len\<close> bytes, the header, and the loop
  \<^verbatim>\<open>for (int u = 0; u < 2; ++u)\<close> over the two user-settings blocks.
\<close>

definition default_firmware :: "Model \<Rightarrow> u8 list option" where
  "default_firmware model = do {
     let len = firmware_len model;
     let firmware = replicate (unat len) 0;
     firmware \<leftarrow> write_header model len firmware;
     for_each [0 ..< 2] (write_user_settings len) firmware
   }"

section \<open>Vocabulary of the specification\<close>

text \<open>
  The user-settings block \<open>u\<close> of an image: the \<open>0x100\<close> bytes starting at offset
  \<open>length - 0x200 + u * 0x100\<close>.
\<close>

definition user_block :: "nat \<Rightarrow> u8 list \<Rightarrow> u8 list" where
  "user_block u img = take 0x100 (drop (length img - 0x200 + u * 0x100) img)"

text \<open>The 16-bit value held by two bytes, low byte first.\<close>

fun little_endian_u16 :: "u8 list \<Rightarrow> u16 option" where
  "little_endian_u16 [lo, hi] = Some (ucast lo OR push_bit 8 (ucast hi))"
| "little_endian_u16 _ = None"

text \<open>The byte at an absolute offset of the image a call returned.\<close>

definition byte_at :: "nat \<Rightarrow> u8 list option \<Rightarrow> u8 option" where
  "byte_at i r = r \<bind> (\<lambda>img. load img i)"

text \<open>
  The reference CRC of section 4.1 of the specification, following its words: for each input
  byte, XOR it into the low byte of the running value; then 8 times: if the low bit is set,
  shift right one bit and XOR with \<open>0xA001\<close>, otherwise shift right one bit.
\<close>

definition reference_round :: "u16 \<Rightarrow> u16" where
  "reference_round v = (if bit v 0 then (v div 2) XOR 0xA001 else v div 2)"

definition reference_byte :: "u16 \<Rightarrow> u8 \<Rightarrow> u16" where
  "reference_byte v b =
     (reference_round ^^ 8) (word_cat (ucast (drop_bit 8 v) :: u8) ((ucast v :: u8) XOR b))"

definition crc16_reference :: "u16 \<Rightarrow> u8 list \<Rightarrow> u16" where
  "crc16_reference seed data = foldl reference_byte seed data"

section \<open>Closed forms of the builder's phases\<close>

text \<open>
  What each phase leaves in the buffer, as list updates. They are proof devices: each is
  shown below to be exactly what the embedded code returns (\<open>write_header_eq\<close>,
  \<open>write_user_settings_eq\<close>, \<open>default_firmware_eq\<close>).
\<close>

definition model_byte :: "Model \<Rightarrow> u8 option" where
  "model_byte m =
     (if m = Ds then Some 0xFF else if m = Lite then Some 0x20 else if m = Ique then Some 0x57
      else if m = IqueLite then Some 0x43 else if m = Dsi then Some 0x63 else None)"

definition header_image :: "Model \<Rightarrow> size_t \<Rightarrow> u8 list \<Rightarrow> u8 list" where
  "header_image m len fw =
     (let v14 = (ucast (push_bit 12 (drop_bit 17 len)) :: u16);
          v20 = (ucast (drop_bit 3 (len - 0x200)) :: u16);
          fw1 = fw[0x04 := 0x00, 0x05 := 0xDB, 0x06 := 0x1F, 0x07 := 0x0F,
                   0x08 := 0x4D, 0x09 := 0x41, 0x0A := 0x43, 0x0B := 0x68,
                   0x14 := ucast (v14 AND 0xFF), 0x15 := ucast (drop_bit 8 v14 AND 0xFF),
                   0x18 := 0x00, 0x19 := 0x00, 0x1A := 0x01, 0x1B := 0x01, 0x1C := 0x06];
          fw2 = (case model_byte m of None \<Rightarrow> fw1 | Some c \<Rightarrow> fw1[0x1D := c])
      in fw2[0x1E := 0xFF, 0x1F := 0xFF,
             0x20 := ucast (v20 AND 0xFF), 0x21 := ucast (drop_bit 8 v20 AND 0xFF),
             0x22 := 0x51, 0x23 := 0x0B, 0x24 := 0xB3, 0x25 := 0x0D,
             0x26 := 0x5D, 0x27 := 0x4F, 0x28 := 0xFF, 0x29 := 0xFF])"

definition settings_fields :: "nat \<Rightarrow> nat \<Rightarrow> u8 list \<Rightarrow> u8 list" where
  "settings_fields u start fw =
     fw[start + 0x00 := 5, start + 0x02 := (if u = 0 then 1 else 0), start + 0x03 := 1,
        start + 0x04 := 1,
        start + 0x06 := 0x44, start + 0x07 := 0x00, start + 0x08 := 0x75, start + 0x09 := 0x00,
        start + 0x0A := 0x73, start + 0x0B := 0x00, start + 0x0C := 0x74, start + 0x0D := 0x00]"

definition settings_image :: "nat \<Rightarrow> nat \<Rightarrow> u8 list \<Rightarrow> u8 list" where
  "settings_image u start fw =
     (let fw1 = settings_fields u start fw;
          crc = crc16 0xFFFF (take 0x70 (drop start fw1))
      in fw1[start + 0x72 := ucast (crc AND 0xFF), start + 0x73 := ucast (drop_bit 8 crc AND 0xFF)])"

definition firmware_image :: "Model \<Rightarrow> u8 list" where
  "firmware_image m =
     (let len = firmware_len m; n = unat len
      in settings_image 1 (n - 0x100)
           (settings_image 0 (n - 0x200) (header_image m len (replicate n 0))))"

text \<open>The byte the field stores of block \<open>u\<close> leave at block offset \<open>k\<close>, if they write there.\<close>

definition field_byte :: "nat \<Rightarrow> nat \<Rightarrow> u8 option" where
  "field_byte u k =
     (if k = 0x00 then Some 5 else if k = 0x02 then Some (if u = 0 then 1 else 0)
      else if k = 0x03 \<or> k = 0x04 then Some 1
      else if k = 0x06 then Some 0x44 else if k = 0x08 then Some 0x75
      else if k = 0x0A then Some 0x73 else if k = 0x0C then Some 0x74
      else if k = 0x07 \<or> k = 0x09 \<or> k = 0x0B \<or> k = 0x0D then Some 0
      else None)"

section \<open>The CRC engine against its reference\<close>

lemma crc16_round:
  "(if crc AND 1 \<noteq> 0 then drop_bit 1 crc XOR 0xA001 else drop_bit 1 crc) = reference_round crc"
proof -
  have low: "crc AND 1 \<noteq> 0 \<longleftrightarrow> bit crc 0"
    by (simp add: and_one_eq bit_0 mod_2_eq_odd)
  have shift: "drop_bit 1 crc = crc div 2"
    by (simp add: drop_bit_eq_div)
  show ?thesis
    unfolding low shift reference_round_def ..
qed

lemma crc16_bits_funpow: "crc16_bits n crc = (reference_round ^^ n) crc"
proof (induction n arbitrary: crc)
  case 0
  show ?case by simp
next
  case (Suc n)
  have "crc16_bits (Suc n) crc = crc16_bits n (reference_round crc)"
    unfolding crc16_bits.simps crc16_round ..
  also have "\<dots> = (reference_round ^^ n) (reference_round crc)"
    by (rule Suc.IH)
  also have "\<dots> = (reference_round ^^ Suc n) crc"
    by (simp add: funpow_swap1)
  finally show ?case .
qed

lemma xor_low_byte:
  "(crc :: u16) XOR ucast (b :: u8) =
     word_cat (ucast (drop_bit 8 crc) :: u8) ((ucast crc :: u8) XOR b)"
  by (rule bit_word_eqI) (auto simp add: bit_simps dest: bit_imp_le_length)

lemma crc16_eq_reference: "crc16 seed data = crc16_reference seed data"
  unfolding crc16_reference_def
  by (induction data arbitrary: seed)
    (simp_all add: reference_byte_def crc16_bits_funpow xor_low_byte)

text \<open>
  Claim C3. For every 16-bit seed and every byte sequence, the empty one included, \<open>crc16\<close>
  computes the reference CRC of the specification (XOR each byte into the low byte of the
  running value, then eight rounds of shift right, with XOR \<open>0xA001\<close> when the low bit was
  set); on the empty sequence with seed \<open>0xFFFF\<close> it returns \<open>0xFFFF\<close>.
\<close>

theorem crc16_refines_reference:
  "crc16 seed data = crc16_reference seed data \<and> crc16 0xFFFF [] = 0xFFFF"
  by (simp add: crc16_eq_reference crc16_reference_def)

section \<open>The phases in closed form\<close>

lemma length_header_image: "length (header_image m len fw) = length fw"
  by (simp add: header_image_def Let_def split: option.split)

lemma write_model_byte_eq:
  "write_model_byte m fw =
     (case model_byte m of None \<Rightarrow> Some fw | Some c \<Rightarrow> store 0x1D c fw)"
  by (simp add: write_model_byte_def model_byte_def)

lemma write_header_eq:
  "write_header m len fw = (if 0x2A \<le> length fw then Some (header_image m len fw) else None)"
  by (simp add: write_header_def header_image_def store_def load_def write_model_byte_eq
      Let_def upt_rec split: option.split)

lemma length_settings_fields: "length (settings_fields u start fw) = length fw"
  by (simp add: settings_fields_def)

lemma length_settings_image: "length (settings_image u start fw) = length fw"
  by (simp add: settings_image_def Let_def length_settings_fields)

lemma write_user_settings_eq:
  "write_user_settings len u fw =
     (if unat (len - 0x200 + of_nat (u * 0x100)) + 0x74 \<le> length fw
      then Some (settings_image u (unat (len - 0x200 + of_nat (u * 0x100))) fw) else None)"
  by (simp add: write_user_settings_def settings_image_def settings_fields_def store_def load_def
      read_range_def Let_def upt_rec)

lemma firmware_len_cases:
  "firmware_len m = 0x20000 \<or> firmware_len m = 0x40000 \<or> firmware_len m = 0x80000"
  by (simp add: firmware_len_def)

lemma block_starts:
  "0x22A \<le> unat (firmware_len m)"
  "unat (firmware_len m - 0x200 + of_nat (0 * 0x100)) = unat (firmware_len m) - 0x200"
  "unat (firmware_len m - 0x200 + of_nat (1 * 0x100)) = unat (firmware_len m) - 0x100"
  "unat (firmware_len m) - 0x200 + 0x100 = unat (firmware_len m) - 0x100"
  using firmware_len_cases [of m] by auto

lemma length_firmware_image: "length (firmware_image m) = unat (firmware_len m)"
  by (simp add: firmware_image_def Let_def length_settings_image length_header_image)

lemma default_firmware_eq: "default_firmware m = Some (firmware_image m)"
  using block_starts [of m]
  by (simp add: default_firmware_def firmware_image_def Let_def upt_rec write_header_eq
      write_user_settings_eq length_settings_image length_header_image)

section \<open>Reading the closed forms\<close>

lemma slice_update:
  "i < s \<or> s + n \<le> i \<Longrightarrow> take n (drop s (xs[i := v])) = take n (drop s xs)"
  by (cases "i < s") (simp_all add: drop_update_swap)

lemma take2_drop: "Suc k < length xs \<Longrightarrow> take 2 (drop k xs) = [xs ! k, xs ! Suc k]"
  by (simp add: numeral_2_eq_2 take_Suc_conv_app_nth)

lemma take_drop_nths:
  "k + n \<le> length xs \<Longrightarrow> take n (drop k xs) = map (\<lambda>i. xs ! (k + i)) [0 ..< n]"
  by (simp add: list_eq_iff_nth_eq)

lemma le_u16_split:
  "ucast (ucast (c AND 0xFF) :: u8) OR push_bit 8 (ucast (ucast (drop_bit 8 c AND 0xFF) :: u8)) =
     (c :: u16)"
proof -
  have m: "(0xFF :: u16) = mask 8"
    by (simp add: mask_eq_decr_exp)
  show ?thesis
    unfolding m by (rule bit_word_eqI) (auto simp add: bit_simps)
qed

subsection \<open>The header\<close>

lemma nth_header_image_outside: "0x2A \<le> j \<Longrightarrow> header_image m len fw ! j = fw ! j"
  by (simp add: header_image_def Let_def split: option.split)

lemma nth_header_image_14:
  assumes "0x2A \<le> length fw"
  shows "header_image m len fw ! 0x14 =
           ucast ((ucast (push_bit 12 (drop_bit 17 len)) :: u16) AND 0xFF)"
    and "header_image m len fw ! 0x15 =
           ucast (drop_bit 8 (ucast (push_bit 12 (drop_bit 17 len)) :: u16) AND 0xFF)"
  using assms by (simp_all add: header_image_def Let_def split: option.split)

lemma nth_header_image_1D:
  assumes "0x2A \<le> length fw"
  shows "header_image m len fw ! 0x1D = (case model_byte m of None \<Rightarrow> fw ! 0x1D | Some c \<Rightarrow> c)"
  using assms by (simp add: header_image_def Let_def split: option.split)

lemma nth_header_image_20:
  assumes "0x2A \<le> length fw"
  shows "header_image m len fw ! 0x20 = ucast ((ucast (drop_bit 3 (len - 0x200)) :: u16) AND 0xFF)"
    and "header_image m len fw ! 0x21 =
           ucast (drop_bit 8 (ucast (drop_bit 3 (len - 0x200)) :: u16) AND 0xFF)"
    and "header_image m len fw ! 0x22 = 0x51" and "header_image m len fw ! 0x23 = 0x0B"
    and "header_image m len fw ! 0x24 = 0xB3" and "header_image m len fw ! 0x25 = 0x0D"
    and "header_image m len fw ! 0x26 = 0x5D" and "header_image m len fw ! 0x27 = 0x4F"
    and "header_image m len fw ! 0x28 = 0xFF" and "header_image m len fw ! 0x29 = 0xFF"
  using assms by (simp_all add: header_image_def Let_def split: option.split)

subsection \<open>One user-settings block\<close>

lemma slice_settings_image_below:
  "s + n \<le> start \<Longrightarrow> take n (drop s (settings_image u start fw)) = take n (drop s fw)"
  by (simp add: settings_image_def settings_fields_def Let_def slice_update)

lemma crc_input_settings_image:
  "take 0x70 (drop start (settings_image u start fw)) =
   take 0x70 (drop start (settings_fields u start fw))"
  by (simp add: settings_image_def Let_def slice_update)

lemma nth_settings_image_below:
  "j < start \<Longrightarrow> settings_image u start fw ! j = fw ! j"
  by (simp add: settings_image_def settings_fields_def Let_def)

lemma nth_settings_image_above:
  "start + 0x74 \<le> j \<Longrightarrow> settings_image u start fw ! j = fw ! j"
  by (simp add: settings_image_def settings_fields_def Let_def)

lemma nth_settings_image_crc:
  assumes "start + 0x74 \<le> length fw"
  shows "settings_image u start fw ! (start + 0x72) =
           ucast (crc16 0xFFFF (take 0x70 (drop start (settings_image u start fw))) AND 0xFF)"
    and "settings_image u start fw ! (start + 0x73) =
           ucast (drop_bit 8 (crc16 0xFFFF (take 0x70 (drop start (settings_image u start fw))))
                  AND 0xFF)"
  using assms unfolding crc_input_settings_image
  by (simp_all add: settings_image_def Let_def length_settings_fields)

lemma nth_settings_image_inside:
  assumes "start + 0x74 \<le> length fw" and "k < 0x72 \<or> 0x74 \<le> k"
  shows "settings_image u start fw ! (start + k) =
           (case field_byte u k of Some c \<Rightarrow> c | None \<Rightarrow> fw ! (start + k))"
  using assms
  by (auto simp add: settings_image_def settings_fields_def field_byte_def Let_def)

lemma fixed_fields:
  "field_byte u 0x00 = Some 5" "field_byte u 0x03 = Some 1" "field_byte u 0x04 = Some 1"
  "field_byte u 0x02 = Some (if u = 0 then 1 else 0)"
  by (simp_all add: field_byte_def)

lemma field_byte_blocks: "k \<noteq> 0x02 \<Longrightarrow> field_byte 0 k = field_byte 1 k"
  by (simp add: field_byte_def)

subsection \<open>The whole image\<close>

lemma nth_image_header:
  assumes "j < 0x2A"
  shows "firmware_image m ! j =
           header_image m (firmware_len m) (replicate (unat (firmware_len m)) 0) ! j"
  using assms block_starts(1) [of m]
  by (simp add: firmware_image_def Let_def nth_settings_image_below)

lemma nth_image_block0:
  assumes "k < 0x100" and "k < 0x72 \<or> 0x74 \<le> k"
  shows "firmware_image m ! (unat (firmware_len m) - 0x200 + k) =
           (case field_byte 0 k of Some c \<Rightarrow> c | None \<Rightarrow> 0)"
proof -
  let ?n = "unat (firmware_len m)"
  let ?H = "header_image m (firmware_len m) (replicate ?n 0)"
  have "firmware_image m ! (?n - 0x200 + k) = settings_image 0 (?n - 0x200) ?H ! (?n - 0x200 + k)"
    using assms block_starts(1) [of m]
    by (simp add: firmware_image_def Let_def nth_settings_image_below)
  also have "\<dots> = (case field_byte 0 k of Some c \<Rightarrow> c | None \<Rightarrow> ?H ! (?n - 0x200 + k))"
    using assms block_starts(1) [of m]
    by (intro nth_settings_image_inside) (simp_all add: length_header_image)
  also have "?H ! (?n - 0x200 + k) = 0"
    using assms block_starts(1) [of m] by (simp add: nth_header_image_outside)
  finally show ?thesis .
qed

lemma nth_image_block1:
  assumes "k < 0x100" and "k < 0x72 \<or> 0x74 \<le> k"
  shows "firmware_image m ! (unat (firmware_len m) - 0x100 + k) =
           (case field_byte 1 k of Some c \<Rightarrow> c | None \<Rightarrow> 0)"
proof -
  let ?n = "unat (firmware_len m)"
  let ?H = "header_image m (firmware_len m) (replicate ?n 0)"
  let ?B = "settings_image 0 (?n - 0x200) ?H"
  have "firmware_image m ! (?n - 0x100 + k) =
          (case field_byte 1 k of Some c \<Rightarrow> c | None \<Rightarrow> ?B ! (?n - 0x100 + k))"
    unfolding firmware_image_def Let_def
    using assms block_starts(1) [of m]
    by (intro nth_settings_image_inside) (simp_all add: length_header_image length_settings_image)
  also have "?B ! (?n - 0x100 + k) = ?H ! (?n - 0x100 + k)"
    using block_starts(1) [of m] by (simp add: nth_settings_image_above)
  also have "\<dots> = 0"
    using assms block_starts(1) [of m] by (simp add: nth_header_image_outside)
  finally show ?thesis .
qed

lemma crc_image_block0:
  "firmware_image m ! (unat (firmware_len m) - 0x200 + 0x72) =
     ucast (crc16 0xFFFF (take 0x70 (drop (unat (firmware_len m) - 0x200) (firmware_image m)))
            AND 0xFF)"
  "firmware_image m ! (unat (firmware_len m) - 0x200 + 0x73) =
     ucast (drop_bit 8
              (crc16 0xFFFF (take 0x70 (drop (unat (firmware_len m) - 0x200) (firmware_image m))))
            AND 0xFF)"
proof -
  let ?n = "unat (firmware_len m)"
  let ?H = "header_image m (firmware_len m) (replicate ?n 0)"
  let ?B = "settings_image 0 (?n - 0x200) ?H"
  have s: "take 0x70 (drop (?n - 0x200) (firmware_image m)) = take 0x70 (drop (?n - 0x200) ?B)"
    using block_starts(1) [of m]
    by (simp add: firmware_image_def Let_def slice_settings_image_below)
  have n: "firmware_image m ! (?n - 0x200 + 0x72) = ?B ! (?n - 0x200 + 0x72)"
    "firmware_image m ! (?n - 0x200 + 0x73) = ?B ! (?n - 0x200 + 0x73)"
    using block_starts(1) [of m]
    by (simp_all add: firmware_image_def Let_def nth_settings_image_below)
  have l: "?n - 0x200 + 0x74 \<le> length ?H"
    using block_starts(1) [of m] by (simp add: length_header_image)
  show "firmware_image m ! (?n - 0x200 + 0x72) =
     ucast (crc16 0xFFFF (take 0x70 (drop (?n - 0x200) (firmware_image m))) AND 0xFF)"
    unfolding s n by (rule nth_settings_image_crc(1) [OF l])
  show "firmware_image m ! (?n - 0x200 + 0x73) =
     ucast (drop_bit 8 (crc16 0xFFFF (take 0x70 (drop (?n - 0x200) (firmware_image m))))
            AND 0xFF)"
    unfolding s n by (rule nth_settings_image_crc(2) [OF l])
qed

lemma crc_image_block1:
  "firmware_image m ! (unat (firmware_len m) - 0x100 + 0x72) =
     ucast (crc16 0xFFFF (take 0x70 (drop (unat (firmware_len m) - 0x100) (firmware_image m)))
            AND 0xFF)"
  "firmware_image m ! (unat (firmware_len m) - 0x100 + 0x73) =
     ucast (drop_bit 8
              (crc16 0xFFFF (take 0x70 (drop (unat (firmware_len m) - 0x100) (firmware_image m))))
            AND 0xFF)"
proof -
  let ?n = "unat (firmware_len m)"
  let ?H = "header_image m (firmware_len m) (replicate ?n 0)"
  let ?B = "settings_image 0 (?n - 0x200) ?H"
  have l: "?n - 0x100 + 0x74 \<le> length ?B"
    using block_starts(1) [of m] by (simp add: length_header_image length_settings_image)
  show "firmware_image m ! (?n - 0x100 + 0x72) =
     ucast (crc16 0xFFFF (take 0x70 (drop (?n - 0x100) (firmware_image m))) AND 0xFF)"
    unfolding firmware_image_def Let_def by (rule nth_settings_image_crc(1) [OF l])
  show "firmware_image m ! (?n - 0x100 + 0x73) =
     ucast (drop_bit 8 (crc16 0xFFFF (take 0x70 (drop (?n - 0x100) (firmware_image m))))
            AND 0xFF)"
    unfolding firmware_image_def Let_def by (rule nth_settings_image_crc(2) [OF l])
qed

lemma model_values: "Ds = 0" "Lite = 1" "Dsi = 2" "Ique = 3" "IqueLite = 4"
  by (simp_all add: Ds_def Lite_def Dsi_def Ique_def IqueLite_def)

lemma firmware_len_models:
  "unat (firmware_len Dsi) = 0x20000" "unat (firmware_len Ds) = 0x40000"
  "unat (firmware_len Lite) = 0x40000" "unat (firmware_len Ique) = 0x80000"
  "unat (firmware_len IqueLite) = 0x80000"
  by (simp_all add: firmware_len_def model_values)

lemma model_byte_models:
  "model_byte Ds = Some 0xFF" "model_byte Lite = Some 0x20" "model_byte Ique = Some 0x57"
  "model_byte IqueLite = Some 0x43" "model_byte Dsi = Some 0x63"
  by (simp_all add: model_byte_def model_values)

lemma header_words:
  "(ucast (push_bit 12 (drop_bit 17 (firmware_len m))) :: u16) =
     of_nat (push_bit 12 (drop_bit 17 (unat (firmware_len m))))"
  "(ucast (drop_bit 3 (firmware_len m - 0x200)) :: u16) =
     of_nat (drop_bit 3 (unat (firmware_len m) - 0x200))"
  using firmware_len_cases [of m] by auto

lemma byte_at_header:
  assumes "j < 0x2A"
  shows "byte_at j (default_firmware m) =
           Some (header_image m (firmware_len m) (replicate (unat (firmware_len m)) 0) ! j)"
  using assms block_starts(1) [of m]
  by (simp add: byte_at_def default_firmware_eq load_def length_firmware_image nth_image_header)

lemma le_u16_image_14:
  "little_endian_u16 (take 2 (drop 0x14 (firmware_image m))) =
     Some (of_nat (push_bit 12 (drop_bit 17 (unat (firmware_len m)))))"
proof -
  have "take 2 (drop 0x14 (firmware_image m)) = [firmware_image m ! 0x14, firmware_image m ! Suc 0x14]"
    using block_starts(1) [of m] by (intro take2_drop) (simp add: length_firmware_image)
  then show ?thesis
    using block_starts(1) [of m]
    by (simp add: nth_image_header nth_header_image_14 le_u16_split header_words)
qed

lemma le_u16_image_20:
  assumes "j \<in> {0x20, 0x22, 0x24, 0x26, 0x28}"
  shows "little_endian_u16 (take 2 (drop j (firmware_image m))) =
           Some ([of_nat (drop_bit 3 (unat (firmware_len m) - 0x200)), 0x0B51, 0x0DB3, 0x4F5D, 0xFFFF]
                 ! ((j - 0x20) div 2))"
proof -
  have "take 2 (drop j (firmware_image m)) = [firmware_image m ! j, firmware_image m ! Suc j]"
    using assms block_starts(1) [of m] by (intro take2_drop) (auto simp add: length_firmware_image)
  then show ?thesis
    using assms block_starts(1) [of m]
    by (auto simp add: nth_image_header nth_header_image_20 le_u16_split header_words)
qed

subsection \<open>The two blocks of the image\<close>

lemma user_block_image:
  "user_block 0 (firmware_image m) =
     take 0x100 (drop (unat (firmware_len m) - 0x200) (firmware_image m))"
  "user_block (Suc 0) (firmware_image m) =
     take 0x100 (drop (unat (firmware_len m) - 0x100) (firmware_image m))"
  by (simp_all add: user_block_def length_firmware_image block_starts(4))

lemma length_user_block_image:
  "length (user_block 0 (firmware_image m)) = 0x100"
  "length (user_block (Suc 0) (firmware_image m)) = 0x100"
  using block_starts(1) [of m] by (simp_all add: user_block_image length_firmware_image)

lemma nth_user_block_image:
  assumes "k < 0x100"
  shows "user_block 0 (firmware_image m) ! k = firmware_image m ! (unat (firmware_len m) - 0x200 + k)"
    and "user_block (Suc 0) (firmware_image m) ! k =
           firmware_image m ! (unat (firmware_len m) - 0x100 + k)"
  using assms by (simp_all add: user_block_image length_firmware_image)

lemma crc_input_user_block:
  "take 0x70 (user_block 0 (firmware_image m)) =
     take 0x70 (drop (unat (firmware_len m) - 0x200) (firmware_image m))"
  "take 0x70 (user_block (Suc 0) (firmware_image m)) =
     take 0x70 (drop (unat (firmware_len m) - 0x100) (firmware_image m))"
  by (simp_all add: user_block_image)

lemma crc_trailer_user_block:
  "take 2 (drop 0x72 (user_block 0 (firmware_image m))) =
     [firmware_image m ! (unat (firmware_len m) - 0x200 + 0x72),
      firmware_image m ! (unat (firmware_len m) - 0x200 + 0x73)]"
  "take 2 (drop 0x72 (user_block (Suc 0) (firmware_image m))) =
     [firmware_image m ! (unat (firmware_len m) - 0x100 + 0x72),
      firmware_image m ! (unat (firmware_len m) - 0x100 + 0x73)]"
  using nth_user_block_image [of "0x72" m] nth_user_block_image [of "0x73" m]
  by (simp_all add: take2_drop length_user_block_image)

lemma nth_field_user_block:
  assumes "k < 0x72"
  shows "field_byte 0 k = Some c \<Longrightarrow> user_block 0 (firmware_image m) ! k = c"
    and "field_byte 1 k = Some c \<Longrightarrow> user_block (Suc 0) (firmware_image m) ! k = c"
proof -
  from assms have k: "k < 0x100" "k < 0x72 \<or> 0x74 \<le> k"
    by simp_all
  show "user_block 0 (firmware_image m) ! k = c" if "field_byte 0 k = Some c"
    unfolding nth_user_block_image(1) [OF k(1)] nth_image_block0 [OF k] using that by simp
  show "user_block (Suc 0) (firmware_image m) ! k = c" if "field_byte 1 k = Some c"
    unfolding nth_user_block_image(2) [OF k(1)] nth_image_block1 [OF k] using that by simp
qed

lemma load_field_user_block:
  assumes "k < 0x72"
  shows "field_byte 0 k = Some c \<Longrightarrow> load (user_block 0 (firmware_image m)) k = Some c"
    and "field_byte 1 k = Some c \<Longrightarrow> load (user_block (Suc 0) (firmware_image m)) k = Some c"
  using assms nth_field_user_block [OF assms, of c m]
  by (simp_all add: load_def length_user_block_image)

lemma name_user_block_image:
  "take 8 (drop 0x06 (user_block 0 (firmware_image m))) = [0x44, 0, 0x75, 0, 0x73, 0, 0x74, 0]"
  "take 8 (drop 0x06 (user_block (Suc 0) (firmware_image m))) = [0x44, 0, 0x75, 0, 0x73, 0, 0x74, 0]"
  by (simp_all add: take_drop_nths length_user_block_image upt_rec nth_user_block_image
      nth_image_block0 nth_image_block1 field_byte_def)

section \<open>The claims about the builder\<close>

text \<open>
  Claim C1. For every model, in the image returned by \<open>default_firmware\<close> and for each of the
  two user-settings blocks (the \<open>0x100\<close> bytes starting at \<open>length - 0x200\<close> and at
  \<open>length - 0x100\<close>), the little-endian 16-bit value at block offsets \<open>0x72..0x73\<close> is
  \<open>crc16 0xFFFF\<close> of the first \<open>0x70\<close> bytes of the block.
\<close>

theorem crc_trailer_invariant:
  "\<exists>img. default_firmware m = Some img \<and>
     little_endian_u16 (take 2 (drop 0x72 (user_block 0 img))) =
       Some (crc16 0xFFFF (take 0x70 (user_block 0 img))) \<and>
     little_endian_u16 (take 2 (drop 0x72 (user_block 1 img))) =
       Some (crc16 0xFFFF (take 0x70 (user_block 1 img)))"
  by (simp add: default_firmware_eq crc_trailer_user_block crc_input_user_block
      crc_image_block0 crc_image_block1 le_u16_split)

text \<open>
  Claim C2. The image returned by \<open>default_firmware\<close> is \<open>0x20000\<close> bytes long for \<open>Dsi\<close>,
  \<open>0x40000\<close> for \<open>Ds\<close> (Primary) and \<open>Lite\<close>, \<open>0x80000\<close> for \<open>Ique\<close> and \<open>IqueLite\<close>.
\<close>

theorem firmware_length_table:
  "map_option length (default_firmware Dsi) = Some 0x20000 \<and>
   map_option length (default_firmware Ds) = Some 0x40000 \<and>
   map_option length (default_firmware Lite) = Some 0x40000 \<and>
   map_option length (default_firmware Ique) = Some 0x80000 \<and>
   map_option length (default_firmware IqueLite) = Some 0x80000"
  by (simp add: default_firmware_eq length_firmware_image firmware_len_models)

text \<open>
  Claim C4, as stated: \<open>default_firmware Ds\<close> yields a \<open>0x40000\<close>-byte buffer in which byte
  \<open>0x14\<close> is \<open>0x00\<close> and byte \<open>0x15\<close> is \<open>0x00\<close>. It fails: byte \<open>0x15\<close> is the high byte of
  \<open>0x2000\<close>.
\<close>

theorem size_field_high_byte_counterexample:
  "\<not> (map_option length (default_firmware Ds) = Some 0x40000 \<and>
      byte_at 0x14 (default_firmware Ds) = Some 0x00 \<and>
      byte_at 0x15 (default_firmware Ds) = Some 0x00)"
  by (simp add: byte_at_header nth_header_image_14 firmware_len_models header_words)

text \<open>
  Claim C4, amended. \<open>default_firmware Ds\<close> yields a \<open>0x40000\<close>-byte buffer in which byte
  \<open>0x14\<close> is \<open>0x00\<close> and byte \<open>0x15\<close> is \<open>0x20\<close>; for every model the little-endian 16-bit
  value at offset \<open>0x14\<close> is \<open>(length >> 17) << 12\<close> truncated to 16 bits, which is
  \<open>0x2000\<close> for the length \<open>0x40000\<close>.
\<close>

theorem primary_size_field:
  "map_option length (default_firmware Ds) = Some 0x40000 \<and>
   byte_at 0x14 (default_firmware Ds) = Some 0x00 \<and>
   byte_at 0x15 (default_firmware Ds) = Some 0x20 \<and>
   (\<exists>img. default_firmware m = Some img \<and>
      little_endian_u16 (take 2 (drop 0x14 img)) =
        Some (of_nat (push_bit 12 (drop_bit 17 (length img))))) \<and>
   (of_nat (push_bit 12 (drop_bit 17 (0x40000 :: nat))) :: u16) = 0x2000"
proof -
  have "map_option length (default_firmware Ds) = Some 0x40000"
    by (simp add: default_firmware_eq length_firmware_image firmware_len_models)
  moreover have "byte_at 0x14 (default_firmware Ds) = Some 0x00"
    by (simp add: byte_at_header nth_header_image_14 firmware_len_models header_words)
  moreover have "byte_at 0x15 (default_firmware Ds) = Some 0x20"
    by (simp add: byte_at_header nth_header_image_14 firmware_len_models header_words)
  moreover have "\<exists>img. default_firmware m = Some img \<and>
      little_endian_u16 (take 2 (drop 0x14 img)) =
        Some (of_nat (push_bit 12 (drop_bit 17 (length img))))"
    by (simp add: default_firmware_eq le_u16_image_14 length_firmware_image)
  moreover have "(of_nat (push_bit 12 (drop_bit 17 (0x40000 :: nat))) :: u16) = 0x2000"
    by simp
  ultimately show ?thesis by blast
qed

text \<open>
  Claim C5. For every model, the image bytes at offsets \<open>0x20..0x29\<close> hold, little-endian
  and in this order, the five 16-bit values \<open>(length - 0x200) >> 3\<close> (truncated to 16 bits),
  \<open>0x0B51\<close>, \<open>0x0DB3\<close>, \<open>0x4F5D\<close>, \<open>0xFFFF\<close>.
\<close>

theorem header_words_at_0x20:
  "\<exists>img. default_firmware m = Some img \<and>
     map (\<lambda>off. little_endian_u16 (take 2 (drop off img))) [0x20, 0x22, 0x24, 0x26, 0x28] =
       map Some [of_nat (drop_bit 3 (length img - 0x200)), 0x0B51, 0x0DB3, 0x4F5D, 0xFFFF]"
  by (simp add: default_firmware_eq le_u16_image_20 length_firmware_image)

text \<open>
  Claim C6. The byte at offset \<open>0x1D\<close> of the image is \<open>0xFF\<close> for \<open>Ds\<close> (Primary), \<open>0x20\<close>
  for \<open>Lite\<close>, \<open>0x57\<close> for \<open>Ique\<close>, \<open>0x43\<close> for \<open>IqueLite\<close> and \<open>0x63\<close> for \<open>Dsi\<close>.
\<close>

theorem model_byte_table:
  "byte_at 0x1D (default_firmware Ds) = Some 0xFF \<and>
   byte_at 0x1D (default_firmware Lite) = Some 0x20 \<and>
   byte_at 0x1D (default_firmware Ique) = Some 0x57 \<and>
   byte_at 0x1D (default_firmware IqueLite) = Some 0x43 \<and>
   byte_at 0x1D (default_firmware Dsi) = Some 0x63"
  by (simp add: byte_at_header nth_header_image_1D firmware_len_models model_byte_models)

text \<open>
  Claim C7. For every model and in both user-settings blocks of the image: block byte
  \<open>0x00\<close> is 5, block bytes \<open>0x03\<close> and \<open>0x04\<close> are 1, bytes \<open>0x06..0x0D\<close> hold the name
  "Dust" as four (character, \<open>0x00\<close>) pairs, and byte \<open>0x02\<close> is 1 in block 0 and 0 in
  block 1.
\<close>

theorem user_settings_fields:
  "\<exists>img. default_firmware m = Some img \<and>
     load (user_block 0 img) 0x00 = Some 5 \<and> load (user_block 1 img) 0x00 = Some 5 \<and>
     load (user_block 0 img) 0x03 = Some 1 \<and> load (user_block 1 img) 0x03 = Some 1 \<and>
     load (user_block 0 img) 0x04 = Some 1 \<and> load (user_block 1 img) 0x04 = Some 1 \<and>
     take 8 (drop 0x06 (user_block 0 img)) = concat (map (\<lambda>c. [of_char c, 0x00]) ''Dust'') \<and>
     take 8 (drop 0x06 (user_block 1 img)) = concat (map (\<lambda>c. [of_char c, 0x00]) ''Dust'') \<and>
     load (user_block 0 img) 0x02 = Some 1 \<and> load (user_block 1 img) 0x02 = Some 0"
  by (simp add: default_firmware_eq name_user_block_image load_field_user_block fixed_fields)

text \<open>
  Claim C8. \<open>default_firmware\<close> returns an image for every value of \<open>Model\<close>, the values
  that are none of the five enumerators included; for those the image is \<open>0x40000\<close> bytes
  long, the length of \<open>Ds\<close> and \<open>Lite\<close>.
\<close>

theorem default_firmware_total:
  "\<exists>img. default_firmware m = Some img \<and>
     (m \<notin> {Ds, Lite, Dsi, Ique, IqueLite} \<longrightarrow> length img = 0x40000)"
  by (simp add: default_firmware_eq length_firmware_image firmware_len_def)

text \<open>Witness for C8: the value 7 is none of the enumerators.\<close>

theorem default_firmware_total_witness:
  "(7 :: Model) \<notin> {Ds, Lite, Dsi, Ique, IqueLite} \<and>
   map_option length (default_firmware 7) = Some 0x40000"
  using default_firmware_total [of 7] by (auto simp add: model_values)

text \<open>
  Claim C9. Every access of \<open>default_firmware\<close> to the image is within its bounds: no store
  or read of the embedding takes its out-of-bounds branch; the header stores need exactly a
  buffer of \<open>0x2A\<close> bytes, so every header offset is below \<open>0x2A\<close>; a user-settings block
  needs exactly the buffer to reach \<open>0x74\<close> bytes past its start; and for every model both
  blocks lie inside the image (\<open>0x200 \<le> length\<close>, the second ends at \<open>length\<close>), with the
  CRC input range \<open>[start, start + 0x70)\<close> of each in bounds.
\<close>

theorem accesses_in_bounds:
  "default_firmware m \<noteq> None \<and>
   (\<forall>len fw. write_header m len fw \<noteq> None \<longleftrightarrow> 0x2A \<le> length fw) \<and>
   (\<forall>len u fw. write_user_settings len u fw \<noteq> None \<longleftrightarrow>
      unat (len - 0x200 + of_nat (u * 0x100)) + 0x74 \<le> length fw) \<and>
   0x2A \<le> unat (firmware_len m) \<and> 0x200 \<le> unat (firmware_len m) \<and>
   unat (firmware_len m - 0x200 + of_nat (0 * 0x100)) + 0x100 \<le> unat (firmware_len m) \<and>
   unat (firmware_len m - 0x200 + of_nat (1 * 0x100)) + 0x100 = unat (firmware_len m) \<and>
   unat (firmware_len m - 0x200 + of_nat (0 * 0x100)) + 0x70 \<le> unat (firmware_len m) \<and>
   unat (firmware_len m - 0x200 + of_nat (1 * 0x100)) + 0x70 \<le> unat (firmware_len m)"
  using firmware_len_cases [of m]
  by (auto simp add: default_firmware_eq write_header_eq write_user_settings_eq)

text \<open>
  Claim C10. For every model, the two user-settings blocks of the image agree at every
  offset \<open>k\<close> in \<open>[0x00, 0x100)\<close> other than \<open>0x02\<close> (where block 0 holds 1 and block 1
  holds 0) and the CRC trailer bytes \<open>0x72\<close> and \<open>0x73\<close>.
\<close>

theorem user_blocks_agree:
  "\<exists>img. default_firmware m = Some img \<and>
     length (user_block 0 img) = 0x100 \<and> length (user_block 1 img) = 0x100 \<and>
     (\<forall>k < 0x100. k \<notin> {0x02, 0x72, 0x73} \<longrightarrow> user_block 0 img ! k = user_block 1 img ! k) \<and>
     user_block 0 img ! 0x02 = 1 \<and> user_block 1 img ! 0x02 = 0"
proof -
  have "user_block 0 (firmware_image m) ! k = user_block (Suc 0) (firmware_image m) ! k"
    if "k < 0x100" "k \<notin> {0x02, 0x72, 0x73}" for k
  proof -
    from that have k: "k < 0x100" "k < 0x72 \<or> 0x74 \<le> k" "k \<noteq> 0x02"
      by auto
    show ?thesis
      unfolding nth_user_block_image [OF k(1)] nth_image_block0 [OF k(1,2)]
        nth_image_block1 [OF k(1,2)] field_byte_blocks [OF k(3)] ..
  qed
  then show ?thesis
    by (simp add: default_firmware_eq length_user_block_image nth_field_user_block fixed_fields)
qed

text \<open>Witness for C10: offset \<open>0x00\<close> of the two blocks of the \<open>Ds\<close> image.\<close>

theorem user_blocks_agree_witness:
  "(0::nat) < 0x100 \<and> (0::nat) \<notin> {0x02, 0x72, 0x73} \<and>
   (\<exists>img. default_firmware Ds = Some img \<and> user_block 0 img ! 0 = user_block 1 img ! 0)"
  using user_blocks_agree [of Ds] by auto

end
